theory Spec2Isabelle
  imports Complex_Main "HOL-Library.Sublist" "HOL-Library.AList" "HOL-Library.Char_ord"
    "HOL-Library.List_Lexorder"
begin

section \<open>Shared vocabulary: paths, subprocesses, errors\<close>

text \<open>
  Go strings are byte sequences, modelled as \<^typ>\<open>string\<close>. A file-system path is the list
  of its components, which is what \<open>filepath.Clean\<close> canonicalises a path to;
  \<open>filepath.Join\<close> appends components and ignores empty ones.
\<close>

type_synonym path = "string list"

definition Join :: "path \<Rightarrow> string list \<Rightarrow> path" where
  "Join base elems = base @ filter (\<lambda>e. e \<noteq> []) elems"

text \<open>
  One external process: working directory and argument vector. The environment answers
  with the combined output and whether the process ended with success; a timeout is a
  failure like any other.
\<close>

record proc =
  Dir :: path
  Argv :: "string list"

type_synonym runner = "proc \<Rightarrow> string \<times> bool"

text \<open>Go \<open>error\<close> values, one constructor per place the code creates one.\<close>

datatype error =
    ExecError string
  | BranchNameEmpty
  | BranchNameInvalid string
  | UnexpectedOutput string
  | AtoiError string
  | NoBeadsDir string
  | MkdirFailed
  | WriteFailed
  | InvalidCostTier string
  | Wrap string error

text \<open>A call either returns or panics; a panic ends the program.\<close>

datatype 'a outcome = Return 'a | Panic string

subsection \<open>String helpers of the Go library\<close>

text \<open>
  White space as \<open>unicode.IsSpace\<close> sees it among the ASCII bytes: tab, line feed,
  vertical tab, form feed, carriage return and space.
\<close>

definition isSpace :: "char \<Rightarrow> bool" where
  "isSpace c \<longleftrightarrow> c \<in> {CHR 0x09, CHR 0x0A, CHR 0x0B, CHR 0x0C, CHR 0x0D, CHR '' ''}"

definition TrimSpace :: "string \<Rightarrow> string" where
  "TrimSpace s = rev (dropWhile isSpace (rev (dropWhile isSpace s)))"

text \<open>\<open>strings.Split(s, sep)\<close> for a one-byte separator: always at least one part.\<close>

fun Split :: "string \<Rightarrow> char \<Rightarrow> string list" where
  "Split [] sep = [[]]"
| "Split (c # cs) sep =
     (if c = sep then [] # Split cs sep
      else (let r = Split cs sep in (c # hd r) # tl r))"

definition isDigit :: "char \<Rightarrow> bool" where
  "isDigit c \<longleftrightarrow> CHR ''0'' \<le> c \<and> c \<le> CHR ''9''"

definition digitVal :: "char \<Rightarrow> int" where
  "digitVal c = int (of_char c) - 48"

definition decimal :: "string \<Rightarrow> int" where
  "decimal ds = foldl (\<lambda>acc c. 10 * acc + digitVal c) 0 ds"

text \<open>Go's \<open>int\<close> is 64 bits wide on the supported platforms.\<close>

definition fitsInt64 :: "int \<Rightarrow> bool" where
  "fitsInt64 v \<longleftrightarrow> - (2 ^ 63) \<le> v \<and> v < 2 ^ 63"

text \<open>\<open>strconv.Atoi\<close>: an optional sign, then one or more decimal digits, nothing else.\<close>

definition Atoi :: "string \<Rightarrow> int option" where
  "Atoi s =
     (let (neg, ds) =
            (case s of
               [] \<Rightarrow> (False, [])
             | c # r \<Rightarrow>
                 if c = CHR ''-'' then (True, r)
                 else if c = CHR ''+'' then (False, r) else (False, s));
          v = (if neg then - decimal ds else decimal ds)
      in if ds = [] \<or> \<not> list_all isDigit ds \<or> \<not> fitsInt64 v then None else Some v)"

section \<open>Dolt server configuration\<close>

definition DefaultPort :: int where "DefaultPort = 3307"
definition DefaultUser :: string where "DefaultUser = ''root''"
definition DefaultMaxConnections :: int where "DefaultMaxConnections = 50"

record Config =
  TownRoot :: path
  Port :: int
  User :: string
  DataDir :: path
  LogFile :: path
  PidFile :: path
  MaxConnections :: int

definition DefaultConfig :: "path \<Rightarrow> Config" where
  "DefaultConfig townRoot =
     (let daemonDir = Join townRoot [''daemon'']
      in \<lparr> TownRoot = townRoot,
           Port = DefaultPort,
           User = DefaultUser,
           DataDir = Join townRoot [''.dolt-data''],
           LogFile = Join daemonDir [''dolt.log''],
           PidFile = Join daemonDir [''dolt.pid''],
           MaxConnections = DefaultMaxConnections \<rparr>)"

section \<open>Branch-name validation and polecat branch creation\<close>

text \<open>
  \<open>validBranchNameRe = ^[a-zA-Z0-9._/-]+$\<close>. The bracket expression is a character class;
  bytes of a multi-byte UTF-8 sequence are all above \<open>0x7f\<close> and so outside every range.
\<close>

definition validBranchNameRe_class :: "char \<Rightarrow> bool" where
  "validBranchNameRe_class c \<longleftrightarrow>
     (CHR ''a'' \<le> c \<and> c \<le> CHR ''z'') \<or> (CHR ''A'' \<le> c \<and> c \<le> CHR ''Z'') \<or>
     (CHR ''0'' \<le> c \<and> c \<le> CHR ''9'') \<or>
     c = CHR ''.'' \<or> c = CHR ''_'' \<or> c = CHR ''/'' \<or> c = CHR ''-''"

text \<open>
  Matching \<open>^C+$\<close> against a whole text: Go's \<open>$\<close> without the multi-line flag is the end
  of the text, so a trailing newline does not match.
\<close>

fun match_anchored_plus :: "(char \<Rightarrow> bool) \<Rightarrow> string \<Rightarrow> bool" where
  "match_anchored_plus C [] = False"
| "match_anchored_plus C [c] = C c"
| "match_anchored_plus C (c # cs) = (C c \<and> match_anchored_plus C cs)"

definition validBranchNameRe_MatchString :: "string \<Rightarrow> bool" where
  "validBranchNameRe_MatchString s = match_anchored_plus validBranchNameRe_class s"

definition validateBranchName :: "string \<Rightarrow> error option" where
  "validateBranchName branchName =
     (if branchName = [] then Some BranchNameEmpty
      else if \<not> validBranchNameRe_MatchString branchName then Some (BranchNameInvalid branchName)
      else None)"

text \<open>
  \<open>doltSQL\<close> runs \<open>dolt sql -q "USE <db>; <query>"\<close> in the data directory. The result is
  the error, if any, and the list of processes that were started.
\<close>

definition doltSQL :: "runner \<Rightarrow> path \<Rightarrow> string \<Rightarrow> string \<Rightarrow> error option \<times> proc list" where
  "doltSQL run townRoot rigDB query =
     (let config = DefaultConfig townRoot;
          fullQuery = ''USE '' @ rigDB @ ''; '' @ query;
          cmd = \<lparr> Dir = DataDir config, Argv = [''dolt'', ''sql'', ''-q'', fullQuery] \<rparr>;
          (output, ok) = run cmd
      in (if ok then None else Some (ExecError (TrimSpace output)), [cmd]))"

definition CreatePolecatBranch :: "runner \<Rightarrow> path \<Rightarrow> string \<Rightarrow> string \<Rightarrow> error option \<times> proc list" where
  "CreatePolecatBranch run townRoot rigDB branchName =
     (case validateBranchName branchName of
        Some err \<Rightarrow> (Some (Wrap (''creating Dolt branch in '' @ rigDB) err), [])
      | None \<Rightarrow>
          (let query = ''CALL DOLT_BRANCH('' @ [CHR 0x27] @ branchName @ [CHR 0x27] @ '')'';
               (err, procs) = doltSQL run townRoot rigDB query
           in case err of
                Some e \<Rightarrow> (Some (Wrap (''creating Dolt branch '' @ branchName @ '' in '' @ rigDB) e), procs)
              | None \<Rightarrow> (None, procs)))"

text \<open>The characters the specification allows in a branch name, written out.\<close>

definition branch_alphabet :: "char set" where
  "branch_alphabet =
     set ''abcdefghijklmnopqrstuvwxyzABCDEFGHIJKLMNOPQRSTUVWXYZ0123456789._/-''"

section \<open>Connection capacity\<close>

text \<open>
  \<open>GetActiveConnectionCount\<close> asks the server for the number of entries of its process
  list and parses the CSV answer, a header line followed by the number.
\<close>

definition GetActiveConnectionCount :: "runner \<Rightarrow> path \<Rightarrow> error + int" where
  "GetActiveConnectionCount run townRoot =
     (let config = DefaultConfig townRoot;
          cmd = \<lparr> Dir = DataDir config,
                  Argv = [''dolt'', ''sql'', ''-r'', ''csv'', ''-q'',
                          ''SELECT COUNT(*) AS cnt FROM information_schema.PROCESSLIST''] \<rparr>;
          (output, ok) = run cmd
      in if \<not> ok then Inl (Wrap ''querying connection count'' (ExecError (TrimSpace output)))
         else
           (let lines = Split (TrimSpace output) (CHR 0x0A)
            in if length lines < 2 then Inl (UnexpectedOutput output)
               else
                 (case Atoi (TrimSpace (last lines)) of
                    None \<Rightarrow> Inl (Wrap ''parsing connection count'' (AtoiError (last lines)))
                  | Some count \<Rightarrow> Inr count)))"

text \<open>
  The result is (has capacity, active connections, error). \<open>maxConn\<close> is at least 1 when
  the threshold is computed, so Go's truncating division agrees with \<open>div\<close>.
\<close>

definition HasConnectionCapacity :: "runner \<Rightarrow> path \<Rightarrow> bool \<times> int \<times> error option" where
  "HasConnectionCapacity run townRoot =
     (let config = DefaultConfig townRoot;
          maxConn = (if MaxConnections config \<le> 0 then 1000 else MaxConnections config)
      in case GetActiveConnectionCount run townRoot of
           Inl err \<Rightarrow> (True, 0, Some err)
         | Inr active \<Rightarrow>
             (let threshold = (maxConn * 80) div 100;
                  threshold = (if threshold < 1 then 1 else threshold)
              in (active < threshold, active, None)))"

section \<open>The file system as the server code sees it\<close>

text \<open>
  \<open>os.Stat\<close> succeeds, fails because the path does not exist, or fails for another reason
  (for example a permission or a component that is not a directory).
\<close>

datatype stat_result = StatOk | ErrNotExist | ErrOther

text \<open>What the code reads of an \<open>os.DirEntry\<close>: its \<open>Name()\<close> and \<open>IsDir()\<close>.\<close>

record dirent =
  DirEntry_Name :: string
  DirEntry_IsDir :: bool

text \<open>
  Values that \<open>encoding/json\<close> decodes into \<open>interface{}\<close>: nil, bool, float64 (the
  rational it denotes), string, slice and map.
\<close>

datatype jvalue =
    JNil
  | JBool bool
  | JFloat rat
  | JString string
  | JSlice "jvalue list"
  | JMap "(string \<times> jvalue) list"

text \<open>
  The bytes of a file, as far as the JSON decoder tells them apart: not a JSON text at all;
  the text \<open>null\<close>; an object, given by its members in the order of the text, each with the
  value it decodes to (a name may occur more than once); any other JSON text.
\<close>

datatype filedata =
    NotJson
  | JsonNull
  | JsonObject "(string \<times> jvalue) list"
  | JsonOther

text \<open>
  The state of the file system: the outcome of \<open>os.Stat\<close>, \<open>os.ReadDir\<close> and \<open>os.ReadFile\<close>
  on every path, and whether the environment lets a directory be made or a file be written
  there. Directory listings are only read by code that writes nothing.
\<close>

record filesys =
  stat :: "path \<Rightarrow> stat_result"
  readDir :: "path \<Rightarrow> dirent list option"
  readFile :: "path \<Rightarrow> filedata option"
  mkdirAllowed :: "path \<Rightarrow> bool"
  writeAllowed :: "path \<Rightarrow> bool"

text \<open>\<open>os.MkdirAll\<close>: on success the directory and all its parents exist.\<close>

definition MkdirAll :: "filesys \<Rightarrow> path \<Rightarrow> filesys \<times> error option" where
  "MkdirAll fs p =
     (if mkdirAllowed fs p
      then (fs\<lparr> stat := (\<lambda>q. if prefix q p \<and> q \<noteq> [] then StatOk else stat fs q) \<rparr>, None)
      else (fs, Some MkdirFailed))"

text \<open>
  Modelled from the spec: \<open>util.AtomicWriteFile\<close> is not part of the sources at hand. The
  specification describes it as a temp-file-plus-rename write: on success the file holds
  exactly the new data, on failure the file is as it was.
\<close>

definition AtomicWriteFile :: "filesys \<Rightarrow> path \<Rightarrow> filedata \<Rightarrow> filesys \<times> error option" where
  "AtomicWriteFile fs p data =
     (if writeAllowed fs p
      then (fs\<lparr> stat := (stat fs)(p := StatOk), readFile := (readFile fs)(p := Some data) \<rparr>, None)
      else (fs, Some WriteFailed))"

section \<open>Discovery of databases to migrate\<close>

record Migration =
  RigName :: string
  SourcePath :: path
  TargetPath :: path

text \<open>
  The body of the loop over the entries of the town root. \<open>beads.ResolveBeadsDir\<close> lives in
  another package of the repository; the discovery takes it as the parameter \<open>resolve\<close>.
\<close>

fun scanRigEntries ::
  "filesys \<Rightarrow> (path \<Rightarrow> path) \<Rightarrow> path \<Rightarrow> Config \<Rightarrow> dirent list \<Rightarrow> Migration list \<Rightarrow> Migration list"
where
  "scanRigEntries fs resolve townRoot config [] migrations = migrations"
| "scanRigEntries fs resolve townRoot config (entry # rest) migrations =
     (if \<not> DirEntry_IsDir entry \<or> prefix ''.'' (DirEntry_Name entry)
      then scanRigEntries fs resolve townRoot config rest migrations
      else
        (let rigName = DirEntry_Name entry;
             resolvedBeadsDir = resolve (Join townRoot [rigName]);
             rigSource = Join resolvedBeadsDir [''dolt'', ''beads'']
         in if stat fs (Join rigSource [''.dolt'']) = StatOk
            then
              (let targetDir = Join (DataDir config) [rigName]
               in if stat fs (Join targetDir [''.dolt'']) = ErrNotExist
                  then scanRigEntries fs resolve townRoot config rest
                         (migrations @
                            [\<lparr> RigName = rigName, SourcePath = rigSource, TargetPath = targetDir \<rparr>])
                  else scanRigEntries fs resolve townRoot config rest migrations)
            else scanRigEntries fs resolve townRoot config rest migrations))"

definition FindMigratableDatabases :: "filesys \<Rightarrow> (path \<Rightarrow> path) \<Rightarrow> path \<Rightarrow> Migration list" where
  "FindMigratableDatabases fs resolve townRoot =
     (let config = DefaultConfig townRoot;
          townBeadsDir = resolve townRoot;
          townSource = Join townBeadsDir [''dolt'', ''beads''];
          migrations =
            (if stat fs (Join townSource [''.dolt'']) = StatOk
             then
               (let targetDir = Join (DataDir config) [''hq'']
                in if stat fs (Join targetDir [''.dolt'']) = ErrNotExist
                   then [\<lparr> RigName = ''hq'', SourcePath = townSource, TargetPath = targetDir \<rparr>]
                   else [])
             else [])
      in case readDir fs townRoot of
           None \<Rightarrow> migrations
         | Some entries \<Rightarrow> scanRigEntries fs resolve townRoot config entries migrations)"

text \<open>What the discovery promises of a proposed migration.\<close>

definition target_free :: "filesys \<Rightarrow> path \<Rightarrow> Migration \<Rightarrow> bool" where
  "target_free fs dataDir m \<longleftrightarrow>
     stat fs (Join (TargetPath m) [''.dolt'']) = ErrNotExist \<and>
     TargetPath m = Join dataDir [RigName m]"

section \<open>The metadata reconciler\<close>

definition FindRigBeadsDir :: "filesys \<Rightarrow> path \<Rightarrow> string \<Rightarrow> path" where
  "FindRigBeadsDir fs townRoot rigName =
     (if rigName = ''hq'' then Join townRoot [''.beads'']
      else
        (let mayorBeads = Join townRoot [rigName, ''mayor'', ''rig'', ''.beads'']
         in if stat fs mayorBeads = StatOk then mayorBeads
            else
              (let rigBeads = Join townRoot [rigName, ''.beads'']
               in if stat fs rigBeads = StatOk then rigBeads else mayorBeads)))"

text \<open>
  A Go map from strings to decoded values: \<open>None\<close> is the nil map, \<open>Some al\<close> a map whose
  entries are the pairs of \<open>al\<close>, entered with \<^const>\<open>AList.update\<close> so that names stay
  distinct. The order of \<open>al\<close> is never observed: the encoder sorts by name.
\<close>

type_synonym gomap = "(string \<times> jvalue) list option"

text \<open>
  \<open>json.Unmarshal(data, &target)\<close> for a map target: the new value of the target and
  whether an error is returned. A text that is not JSON is rejected before anything is
  stored; \<open>null\<close> sets the map to nil; an object stores its members one by one into the
  map, a later member replacing an earlier one of the same name; any other text is a
  type error that leaves the map alone.
\<close>

definition Unmarshal :: "filedata \<Rightarrow> gomap \<Rightarrow> gomap \<times> bool" where
  "Unmarshal data target =
     (case data of
        NotJson \<Rightarrow> (target, True)
      | JsonNull \<Rightarrow> (None, False)
      | JsonOther \<Rightarrow> (target, True)
      | JsonObject members \<Rightarrow>
          (Some (fold (\<lambda>(k, v). AList.update k v) members
                   (case target of None \<Rightarrow> [] | Some al \<Rightarrow> al)), False))"

text \<open>
  \<open>json.MarshalIndent\<close> of a map writes the entries sorted by name. Decoding what the
  encoder wrote for a decoded value gives that value back, so the text written is the
  object whose members are the sorted entries.
\<close>

definition MarshalIndent :: "(string \<times> jvalue) list \<Rightarrow> filedata" where
  "MarshalIndent al = JsonObject (sort_key fst al)"

text \<open>
  \<open>EnsureMetadata\<close>, as one call runs it. The mutex it holds only orders concurrent calls.
  Assigning to an entry of a nil map panics. \<open>json.MarshalIndent\<close> cannot fail on a map
  of decoded values and strings, so that error branch is not reached.
\<close>

definition EnsureMetadata :: "filesys \<Rightarrow> path \<Rightarrow> string \<Rightarrow> filesys \<times> error option outcome" where
  "EnsureMetadata fs townRoot rigName =
     (let beadsDir = FindRigBeadsDir fs townRoot rigName
      in if beadsDir = [] then (fs, Return (Some (NoBeadsDir rigName)))
         else
           (let metadataPath = Join beadsDir [''metadata.json'']
            in case MkdirAll fs beadsDir of
                 (fs1, Some err) \<Rightarrow> (fs1, Return (Some (Wrap ''creating beads directory'' err)))
               | (fs1, None) \<Rightarrow>
                   (let existing = Some [];
                        existing =
                          (case readFile fs1 metadataPath of
                             Some data \<Rightarrow> fst (Unmarshal data existing)
                           | None \<Rightarrow> existing)
                    in case existing of
                         None \<Rightarrow> (fs1, Panic ''assignment to entry in nil map'')
                       | Some m \<Rightarrow>
                           (let m = AList.update ''database'' (JString ''dolt'') m;
                                m = AList.update ''backend'' (JString ''dolt'') m;
                                m = AList.update ''dolt_mode'' (JString ''server'') m;
                                m = AList.update ''dolt_database'' (JString rigName) m;
                                m = (if map_of m ''jsonl_export'' = None
                                     then AList.update ''jsonl_export'' (JString ''issues.jsonl'') m
                                     else m);
                                data = MarshalIndent m
                            in case AtomicWriteFile fs1 metadataPath data of
                                 (fs2, Some err) \<Rightarrow>
                                   (fs2, Return (Some (Wrap ''writing metadata.json'' err)))
                               | (fs2, None) \<Rightarrow> (fs2, Return None)))))"

text \<open>
  Three pieces of \<open>EnsureMetadata\<close>, named so that the properties can speak of them: the
  map after the best-effort load, the five assignments, and the value the decoder gives a
  member name of an object (the last member of that name).
\<close>

definition loadExisting :: "filedata option \<Rightarrow> gomap" where
  "loadExisting content =
     (case content of Some data \<Rightarrow> fst (Unmarshal data (Some [])) | None \<Rightarrow> Some [])"

definition setServerFields :: "string \<Rightarrow> (string \<times> jvalue) list \<Rightarrow> (string \<times> jvalue) list" where
  "setServerFields rigName m =
     (let m = AList.update ''database'' (JString ''dolt'') m;
          m = AList.update ''backend'' (JString ''dolt'') m;
          m = AList.update ''dolt_mode'' (JString ''server'') m;
          m = AList.update ''dolt_database'' (JString rigName) m
      in if map_of m ''jsonl_export'' = None
         then AList.update ''jsonl_export'' (JString ''issues.jsonl'') m
         else m)"


section \<open>Cost tiers\<close>

text \<open>
  A Go map with string keys that may be nil: \<open>None\<close> is the nil map, \<open>Some al\<close> a map
  with the entries of \<open>al\<close>. \<open>RuntimeConfig\<close> and \<open>TownSettings\<close> are declared in another
  file of the package; the records have the fields this code reads and writes, and the
  functions on settings accept any extension of the record.
\<close>

type_synonym CostTier = string

definition TierStandard :: CostTier where "TierStandard = ''standard''"
definition TierEconomy :: CostTier where "TierEconomy = ''economy''"
definition TierBudget :: CostTier where "TierBudget = ''budget''"

definition ValidCostTiers :: "string list" where
  "ValidCostTiers = [TierStandard, TierEconomy, TierBudget]"

definition IsValidTier :: "string \<Rightarrow> bool" where
  "IsValidTier tier \<longleftrightarrow> tier = TierStandard \<or> tier = TierEconomy \<or> tier = TierBudget"

record RuntimeConfig =
  Command :: string
  Args :: "string list"

type_synonym 'v strmap = "(string \<times> 'v) list option"

definition CostTierRoleAgents :: "CostTier \<Rightarrow> string strmap" where
  "CostTierRoleAgents tier =
     (if tier = TierStandard then Some []
      else if tier = TierEconomy then
        Some [(''mayor'', ''claude-sonnet''),
              (''deacon'', ''claude-haiku''),
              (''witness'', ''claude-sonnet''),
              (''refinery'', ''claude-sonnet'')]
      else if tier = TierBudget then
        Some [(''mayor'', ''claude-sonnet''),
              (''deacon'', ''claude-haiku''),
              (''witness'', ''claude-haiku''),
              (''refinery'', ''claude-haiku''),
              (''polecat'', ''claude-sonnet''),
              (''crew'', ''claude-sonnet'')]
      else None)"

definition claudeSonnetPreset :: RuntimeConfig where
  "claudeSonnetPreset =
     \<lparr> Command = ''claude'', Args = [''--dangerously-skip-permissions'', ''--model'', ''sonnet''] \<rparr>"

definition claudeHaikuPreset :: RuntimeConfig where
  "claudeHaikuPreset =
     \<lparr> Command = ''claude'', Args = [''--dangerously-skip-permissions'', ''--model'', ''haiku''] \<rparr>"

definition CostTierAgents :: "CostTier \<Rightarrow> RuntimeConfig strmap" where
  "CostTierAgents tier =
     (if tier = TierStandard then Some []
      else if tier = TierEconomy \<or> tier = TierBudget then
        Some [(''claude-sonnet'', claudeSonnetPreset), (''claude-haiku'', claudeHaikuPreset)]
      else None)"

record TownSettings =
  RoleAgents :: "string strmap"
  Agents :: "RuntimeConfig strmap"
  CostTier :: string

text \<open>The entries of a map; a nil map has none.\<close>

definition mapEntries :: "'v strmap \<Rightarrow> (string \<times> 'v) list" where
  "mapEntries m = (case m of None \<Rightarrow> [] | Some al \<Rightarrow> al)"

definition ApplyCostTier ::
  "'a TownSettings_scheme \<Rightarrow> CostTier \<Rightarrow> 'a TownSettings_scheme \<times> error option" where
  "ApplyCostTier settings tier =
     (let roleAgents = CostTierRoleAgents tier
      in if roleAgents = None then (settings, Some (InvalidCostTier tier))
         else
           (let agents = CostTierAgents tier;
                settings = settings\<lparr> RoleAgents := roleAgents \<rparr>;
                settings = (if Agents settings = None then settings\<lparr> Agents := Some [] \<rparr>
                            else settings);
                settings =
                  (if tier = TierStandard
                   then settings\<lparr> Agents :=
                          Some (AList.delete ''claude-haiku''
                                  (AList.delete ''claude-sonnet'' (mapEntries (Agents settings)))) \<rparr>
                   else settings\<lparr> Agents :=
                          Some (fold (\<lambda>(name, rc). AList.update name rc) (mapEntries agents)
                                  (mapEntries (Agents settings))) \<rparr>);
                settings = settings\<lparr> CostTier := tier \<rparr>
            in (settings, None)))"

definition roleAgentsMatch :: "string strmap \<Rightarrow> string strmap \<Rightarrow> bool" where
  "roleAgentsMatch a b =
     (if length (mapEntries a) = 0 \<and> length (mapEntries b) = 0 then True
      else if length (mapEntries a) \<noteq> length (mapEntries b) then False
      else list_all (\<lambda>(k, v). (case map_of (mapEntries b) k of None \<Rightarrow> [] | Some w \<Rightarrow> w) = v)
             (mapEntries a))"

text \<open>The loop of \<open>GetCurrentTier\<close> over the valid tiers; no match gives the empty string.\<close>

fun firstMatchingTier :: "string strmap \<Rightarrow> string list \<Rightarrow> string" where
  "firstMatchingTier roleAgents [] = []"
| "firstMatchingTier roleAgents (tierName # rest) =
     (if roleAgentsMatch roleAgents (CostTierRoleAgents tierName) then tierName
      else firstMatchingTier roleAgents rest)"

definition GetCurrentTier :: "'a TownSettings_scheme \<Rightarrow> string" where
  "GetCurrentTier settings =
     (if CostTier settings \<noteq> [] \<and> IsValidTier (CostTier settings) \<and>
         roleAgentsMatch (RoleAgents settings) (CostTierRoleAgents (CostTier settings))
      then CostTier settings
      else firstMatchingTier (RoleAgents settings) ValidCostTiers)"

section \<open>Step-drift detection\<close>




record polecatInfo =
  rig :: string
  name :: string
  state :: string
  bead :: string














section \<open>Version check of the issue-store tool\<close>








section \<open>Polecat health check\<close>

text \<open>
  The agent issue of a polecat as the health check reads it. \<open>agent_state\<close> is the database
  column, \<open>description\<close> the free text (which may hold a stale \<open>agent_state:\<close> line), and
  \<open>updated_at\<close> a time in seconds.
\<close>

record agentBead =
  agent_state :: string
  description :: string
  updated_at :: int
  hook_bead :: string

datatype health_log = SpawningSkipped | SpawningGuardExpired | CrashDetected

record health_result =
  logged :: "health_log list"
  restarted :: bool

definition spawningGrace :: int where
  "spawningGrace = 5 * 60"

text \<open>
  Modelled from the spec: \<open>checkPolecatHealth\<close> is not part of the sources at hand, only its
  tests are. Section 4.4 of the specification describes it: the state is read from the
  \<open>agent_state\<close> column; in state \<open>spawning\<close>, an issue updated at most five minutes ago is
  logged as skipped and nothing else happens, an older one is logged as an expired guard
  and falls through to the crash check; the crash check, also taken in state \<open>working\<close>,
  probes the multiplexer session: if it exists the polecat is healthy, if not
  \<open>CRASH DETECTED\<close> is logged and a restart is triggered subject to the capacity and
  quiesce rules (\<open>restartAllowed\<close>); every other state means no action.
\<close>

text \<open>
  Modelled from the spec: the crash check of step 4 of section 4.4, on top of the log lines
  written so far.
\<close>

definition crashCheck :: "bool \<Rightarrow> bool \<Rightarrow> health_log list \<Rightarrow> health_result" where
  "crashCheck hasSession restartAllowed logs =
     (if hasSession then \<lparr> logged = logs, restarted = False \<rparr>
      else \<lparr> logged = logs @ [CrashDetected], restarted = restartAllowed \<rparr>)"

text \<open>
  Modelled from the spec: steps 2 to 5 of section 4.4, for the agent issue that step 1 has
  read. \<open>now\<close> is the current time in seconds.
\<close>

definition checkPolecatHealth :: "int \<Rightarrow> bool \<Rightarrow> bool \<Rightarrow> agentBead \<Rightarrow> health_result" where
  "checkPolecatHealth now hasSession restartAllowed issue =
     (if agent_state issue = ''spawning'' then
        (if now - updated_at issue \<le> spawningGrace
         then \<lparr> logged = [SpawningSkipped], restarted = False \<rparr>
         else crashCheck hasSession restartAllowed [SpawningGuardExpired])
      else if agent_state issue = ''working'' then crashCheck hasSession restartAllowed []
      else \<lparr> logged = [], restarted = False \<rparr>)"

section \<open>Concrete environments for the examples\<close>

subsection \<open>Two environments for the capacity check\<close>

text \<open>A server that answers with 39 connections, and one that cannot be reached.\<close>

definition csv_runner :: runner where
  "csv_runner p = (''cnt'' @ [CHR 0x0A] @ ''39'' @ [CHR 0x0A], True)"

definition down_runner :: runner where
  "down_runner p = (''connection refused'', False)"

subsection \<open>A town with one rig to migrate and one already migrated\<close>

definition town_fs :: filesys where
  "town_fs =
     \<lparr> stat = (\<lambda>p. if p \<in> {[''T'', ''nexus'', ''mayor'', ''rig'', ''.beads'', ''dolt'', ''beads'', ''.dolt''],
                              [''T'', ''already'', ''.beads'', ''dolt'', ''beads'', ''.dolt''],
                              [''T'', ''.dolt-data'', ''already'', ''.dolt'']}
                    then StatOk else ErrNotExist),
       readDir = (\<lambda>p. if p = [''T'']
                       then Some [\<lparr> DirEntry_Name = ''.dolt-data'', DirEntry_IsDir = True \<rparr>,
                                  \<lparr> DirEntry_Name = ''README.md'', DirEntry_IsDir = False \<rparr>,
                                  \<lparr> DirEntry_Name = ''already'', DirEntry_IsDir = True \<rparr>,
                                  \<lparr> DirEntry_Name = ''nexus'', DirEntry_IsDir = True \<rparr>]
                       else None),
       readFile = (\<lambda>p. None),
       mkdirAllowed = (\<lambda>p. True),
       writeAllowed = (\<lambda>p. True) \<rparr>"

definition town_resolve :: "path \<Rightarrow> path" where
  "town_resolve p =
     (if p = [''T'', ''nexus''] then p @ [''mayor'', ''rig'', ''.beads''] else p @ [''.beads''])"

subsection \<open>A town whose own metadata file has a given content\<close>

definition hq_fs :: "filedata option \<Rightarrow> filesys" where
  "hq_fs content =
     \<lparr> stat = (\<lambda>p. if p \<in> {[''T''], [''T'', ''.beads'']} then StatOk else ErrNotExist),
       readDir = (\<lambda>p. None),
       readFile = (\<lambda>p. if p = [''T'', ''.beads'', ''metadata.json''] then content else None),
       mkdirAllowed = (\<lambda>p. True),
       writeAllowed = (\<lambda>p. True) \<rparr>"

subsection \<open>Settings with a custom role assignment\<close>

definition custom_settings :: TownSettings where
  "custom_settings =
     \<lparr> RoleAgents = Some [(''mayor'', ''some-custom-agent'')], Agents = None, CostTier = [] \<rparr>"

subsection \<open>Three polecats: drifting, young, and progressing\<close>

definition toast :: polecatInfo where
  "toast = \<lparr> rig = ''gastown'', name = ''Toast'', state = ''working'', bead = ''gt-1'' \<rparr>"




subsection \<open>A polecat that is still spawning\<close>

definition spawning_bead :: "int \<Rightarrow> agentBead" where
  "spawning_bead t =
     \<lparr> agent_state = ''spawning'', description = ''agent_state: spawning'',
       updated_at = t, hook_bead = ''gt-xyz'' \<rparr>"

section \<open>Verified properties\<close>

subsection \<open>Branch names: the class is the alphabet\<close>

lemma char_range:
  assumes "(lo::nat) \<le> of_char c" "(of_char c :: nat) \<le> hi"
  shows "c \<in> set (map char_of [lo..<Suc hi])"
proof -
  have "(of_char c :: nat) \<in> set [lo..<Suc hi]"
    using assms by auto
  then have "char_of (of_char c :: nat) \<in> char_of ` set [lo..<Suc hi]"
    by (rule imageI)
  then show ?thesis by simp
qed

lemma lower_letters: "map char_of [97..<Suc (122::nat)] = ''abcdefghijklmnopqrstuvwxyz''"
  by code_simp

lemma upper_letters: "map char_of [65..<Suc (90::nat)] = ''ABCDEFGHIJKLMNOPQRSTUVWXYZ''"
  by code_simp

lemma decimal_digits: "map char_of [48..<Suc (57::nat)] = ''0123456789''"
  by code_simp

lemma alphabet_in_class:
  "list_all validBranchNameRe_class
     ''abcdefghijklmnopqrstuvwxyzABCDEFGHIJKLMNOPQRSTUVWXYZ0123456789._/-''"
  by (simp add: validBranchNameRe_class_def)

lemma class_in_alphabet:
  assumes "validBranchNameRe_class c"
  shows "c \<in> branch_alphabet"
proof -
  have s: "branch_alphabet =
      set ''abcdefghijklmnopqrstuvwxyz'' \<union> set ''ABCDEFGHIJKLMNOPQRSTUVWXYZ'' \<union>
      set ''0123456789'' \<union> set ''._/-''"
    unfolding branch_alphabet_def set_append[symmetric] by simp
  from assms consider
      "CHR ''a'' \<le> c \<and> c \<le> CHR ''z''" | "CHR ''A'' \<le> c \<and> c \<le> CHR ''Z''"
    | "CHR ''0'' \<le> c \<and> c \<le> CHR ''9''" | "c \<in> set ''._/-''"
    unfolding validBranchNameRe_class_def by auto
  then show ?thesis
  proof cases
    case 1
    then have "c \<in> set (map char_of [97..<Suc (122::nat)])"
      by (intro char_range) (simp_all add: less_eq_char_def)
    then show ?thesis unfolding s lower_letters by blast
  next
    case 2
    then have "c \<in> set (map char_of [65..<Suc (90::nat)])"
      by (intro char_range) (simp_all add: less_eq_char_def)
    then show ?thesis unfolding s upper_letters by blast
  next
    case 3
    then have "c \<in> set (map char_of [48..<Suc (57::nat)])"
      by (intro char_range) (simp_all add: less_eq_char_def)
    then show ?thesis unfolding s decimal_digits by blast
  next
    case 4
    then show ?thesis unfolding s by blast
  qed
qed

lemma class_iff_alphabet: "validBranchNameRe_class c \<longleftrightarrow> c \<in> branch_alphabet"
  using class_in_alphabet alphabet_in_class
  unfolding branch_alphabet_def list_all_iff by blast

lemma match_anchored_plus_iff:
  "match_anchored_plus C s \<longleftrightarrow> s \<noteq> [] \<and> (\<forall>c \<in> set s. C c)"
  by (induction C s rule: match_anchored_plus.induct) auto

lemma validateBranchName_None_iff:
  "validateBranchName B = None \<longleftrightarrow> B \<noteq> [] \<and> set B \<subseteq> branch_alphabet"
  by (auto simp: validateBranchName_def validBranchNameRe_MatchString_def
      match_anchored_plus_iff class_iff_alphabet)

text \<open>
  C1. \<open>CreatePolecatBranch\<close> returns no error only for a non-empty branch name made of
  the characters \<open>[A-Za-z0-9._/-]\<close>; for an empty name, or one with any other character,
  it returns an error and starts no SQL subprocess, whatever the town root, the rig
  database and the behaviour of the subprocess runner are.
\<close>

theorem CreatePolecatBranch_validates_first:
  "(fst (CreatePolecatBranch run townRoot rigDB B) = None
      \<longrightarrow> B \<noteq> [] \<and> set B \<subseteq> branch_alphabet) \<and>
   (B = [] \<or> \<not> set B \<subseteq> branch_alphabet
      \<longrightarrow> fst (CreatePolecatBranch run townRoot rigDB B) \<noteq> None \<and>
          snd (CreatePolecatBranch run townRoot rigDB B) = [])"
proof -
  have bad: "fst (CreatePolecatBranch run townRoot rigDB B) \<noteq> None \<and>
             snd (CreatePolecatBranch run townRoot rigDB B) = []"
    if "validateBranchName B \<noteq> None"
    using that by (auto simp: CreatePolecatBranch_def)
  show ?thesis
    using bad validateBranchName_None_iff [of B] by blast
qed

theorem CreatePolecatBranch_validates_first_witness:
  "fst (CreatePolecatBranch (\<lambda>p. ([], True)) [''town''] ''gastown''
          ''polecat-x'; DROP TABLE--'') \<noteq> None \<and>
   snd (CreatePolecatBranch (\<lambda>p. ([], True)) [''town''] ''gastown''
          ''polecat-x'; DROP TABLE--'') = [] \<and>
   fst (CreatePolecatBranch (\<lambda>p. ([], True)) [''town''] ''gastown''
          ''polecat-toast-1700000000'') = None \<and>
   set ''polecat-toast-1700000000'' \<subseteq> branch_alphabet"
proof -
  have bad: "\<not> set ''polecat-x'; DROP TABLE--'' \<subseteq> branch_alphabet"
    by (simp add: branch_alphabet_def)
  have ok: "fst (CreatePolecatBranch (\<lambda>p. ([], True)) [''town''] ''gastown''
          ''polecat-toast-1700000000'') = None"
    by (simp add: CreatePolecatBranch_def validateBranchName_def
        validBranchNameRe_MatchString_def validBranchNameRe_class_def doltSQL_def)
  show ?thesis
    using bad ok
      CreatePolecatBranch_validates_first
        [of "\<lambda>p. ([], True)" "[''town'']" "''gastown''" "''polecat-x'; DROP TABLE--''"]
      CreatePolecatBranch_validates_first
        [of "\<lambda>p. ([], True)" "[''town'']" "''gastown''" "''polecat-toast-1700000000''"]
    by blast
qed

subsection \<open>Connection capacity\<close>

lemma threshold_formula:
  "max 1 ((m * 80) div 100) = max 1 \<lfloor>0.80 * real_of_int m\<rfloor>"
proof -
  have "0.80 * real_of_int m = real_of_int (m * 80) / real_of_int 100" by simp
  then have "\<lfloor>0.80 * real_of_int m\<rfloor> = (m * 80) div 100"
    by (simp only: floor_divide_of_int_eq)
  then show ?thesis by simp
qed

lemma MaxConnections_DefaultConfig [simp]:
  "MaxConnections (DefaultConfig townRoot) = DefaultMaxConnections"
  by (simp add: DefaultConfig_def Let_def)

lemma DataDir_DefaultConfig [simp]:
  "DataDir (DefaultConfig townRoot) = Join townRoot [''.dolt-data'']"
  by (simp add: DefaultConfig_def Let_def)

lemma HasConnectionCapacity_measured:
  assumes "GetActiveConnectionCount run townRoot = Inr active"
  shows "HasConnectionCapacity run townRoot =
           (active < max 1 ((MaxConnections (DefaultConfig townRoot) * 80) div 100), active, None)"
  using assms by (simp add: HasConnectionCapacity_def Let_def DefaultMaxConnections_def)

lemma HasConnectionCapacity_unmeasured:
  assumes "GetActiveConnectionCount run townRoot = Inl err"
  shows "HasConnectionCapacity run townRoot = (True, 0, Some err)"
  using assms by (simp add: HasConnectionCapacity_def Let_def)

text \<open>
  C8. \<open>HasConnectionCapacity\<close> uses the threshold \<open>max(1, floor(0.80 * max_connections))\<close>:
  with a measured connection count it reports capacity exactly when the count is strictly
  below the threshold; when the count cannot be measured it reports capacity (optimistic)
  and hands back the measurement error.
\<close>

theorem HasConnectionCapacity_threshold:
  "(\<forall>active. GetActiveConnectionCount run townRoot = Inr active \<longrightarrow>
      HasConnectionCapacity run townRoot =
        (active < max 1 \<lfloor>0.80 * real_of_int (MaxConnections (DefaultConfig townRoot))\<rfloor>,
         active, None)) \<and>
   (\<forall>err. GetActiveConnectionCount run townRoot = Inl err \<longrightarrow>
      HasConnectionCapacity run townRoot = (True, 0, Some err))"
  using HasConnectionCapacity_measured [of run townRoot]
    HasConnectionCapacity_unmeasured [of run townRoot]
  unfolding threshold_formula by blast

theorem HasConnectionCapacity_threshold_witness:
  "HasConnectionCapacity csv_runner [''town''] = (True, 39, None) \<and>
   HasConnectionCapacity down_runner [''town''] =
     (True, 0, Some (Wrap ''querying connection count'' (ExecError ''connection refused'')))"
proof -
  have m: "GetActiveConnectionCount csv_runner [''town''] = Inr 39"
    by (simp add: GetActiveConnectionCount_def csv_runner_def TrimSpace_def isSpace_def
        Atoi_def decimal_def digitVal_def isDigit_def fitsInt64_def)
  have u: "GetActiveConnectionCount down_runner [''town''] =
      Inl (Wrap ''querying connection count'' (ExecError ''connection refused''))"
    by (simp add: GetActiveConnectionCount_def down_runner_def TrimSpace_def isSpace_def)
  have f: "(39::int) < max 1 \<lfloor>0.80 * real_of_int (MaxConnections (DefaultConfig [''town'']))\<rfloor>"
    by (simp add: DefaultMaxConnections_def)
  show ?thesis
    using HasConnectionCapacity_threshold [of csv_runner "[''town'']"]
      HasConnectionCapacity_threshold [of down_runner "[''town'']"] m u f
    by simp
qed

subsection \<open>Discovery of databases to migrate\<close>

lemma scanRigEntries_targets:
  assumes "\<forall>m \<in> set acc. target_free fs (DataDir config) m"
  shows "\<forall>m \<in> set (scanRigEntries fs resolve townRoot config entries acc).
           target_free fs (DataDir config) m"
  using assms
proof (induction entries arbitrary: acc)
  case Nil
  then show ?case by simp
next
  case (Cons entry rest)
  let ?src = "Join (resolve (Join townRoot [DirEntry_Name entry])) [''dolt'', ''beads'']"
  let ?new = "\<lparr> RigName = DirEntry_Name entry, SourcePath = ?src,
                 TargetPath = Join (DataDir config) [DirEntry_Name entry] \<rparr>"
  have ext: "\<forall>m \<in> set (acc @ [?new]). target_free fs (DataDir config) m"
    if "stat fs (Join (Join (DataDir config) [DirEntry_Name entry]) [''.dolt'']) = ErrNotExist"
    using Cons.prems that by (auto simp: target_free_def)
  show ?case
    using Cons.IH [OF Cons.prems] Cons.IH [OF ext] by (simp add: Let_def)
qed

lemma FindMigratableDatabases_targets:
  assumes "m \<in> set (FindMigratableDatabases fs resolve townRoot)"
  shows "target_free fs (DataDir (DefaultConfig townRoot)) m"
proof -
  define config where "config = DefaultConfig townRoot"
  define townSource where "townSource = Join (resolve townRoot) [''dolt'', ''beads'']"
  define first where "first =
     (if stat fs (Join townSource [''.dolt'']) = StatOk
      then (if stat fs (Join (Join (DataDir config) [''hq'']) [''.dolt'']) = ErrNotExist
            then [\<lparr> RigName = ''hq'', SourcePath = townSource,
                     TargetPath = Join (DataDir config) [''hq''] \<rparr>]
            else [])
      else [])"
  have first: "\<forall>m \<in> set first. target_free fs (DataDir config) m"
    by (simp add: first_def target_free_def)
  have eq: "FindMigratableDatabases fs resolve townRoot =
      (case readDir fs townRoot of
         None \<Rightarrow> first
       | Some entries \<Rightarrow> scanRigEntries fs resolve townRoot config entries first)"
    by (auto simp: FindMigratableDatabases_def Let_def first_def config_def townSource_def split: option.splits)
  show ?thesis
    using assms first scanRigEntries_targets [OF first, of resolve townRoot]
    unfolding eq config_def [symmetric] by (auto split: option.splits)
qed

text \<open>
  C5. Every migration that \<open>FindMigratableDatabases\<close> returns has a target directory
  in which the metadata directory \<open>.dolt\<close> does not exist; a rig whose
  \<open>.dolt-data/<rig>/.dolt\<close> already exists is never proposed.
\<close>

theorem FindMigratableDatabases_target_has_no_dolt:
  "(\<forall>m \<in> set (FindMigratableDatabases fs resolve townRoot).
      stat fs (Join (TargetPath m) [''.dolt'']) = ErrNotExist) \<and>
   (\<forall>rig. stat fs (Join (Join (Join townRoot [''.dolt-data'']) [rig]) [''.dolt'']) = StatOk \<longrightarrow>
      rig \<notin> RigName ` set (FindMigratableDatabases fs resolve townRoot))"
proof -
  have a: "stat fs (Join (TargetPath m) [''.dolt'']) = ErrNotExist"
    and b: "TargetPath m = Join (Join townRoot [''.dolt-data'']) [RigName m]"
    if "m \<in> set (FindMigratableDatabases fs resolve townRoot)" for m
    using FindMigratableDatabases_targets [OF that] by (auto simp: target_free_def)
  have "stat fs (Join (Join (Join townRoot [''.dolt-data'']) [RigName m]) [''.dolt'']) \<noteq> StatOk"
    if "m \<in> set (FindMigratableDatabases fs resolve townRoot)" for m
    using a [OF that] b [OF that] by auto
  then show ?thesis using a by blast
qed

theorem FindMigratableDatabases_target_has_no_dolt_witness:
  "FindMigratableDatabases town_fs town_resolve [''T''] =
     [\<lparr> RigName = ''nexus'',
        SourcePath = [''T'', ''nexus'', ''mayor'', ''rig'', ''.beads'', ''dolt'', ''beads''],
        TargetPath = [''T'', ''.dolt-data'', ''nexus''] \<rparr>] \<and>
   stat town_fs [''T'', ''.dolt-data'', ''nexus'', ''.dolt''] = ErrNotExist \<and>
   stat town_fs [''T'', ''.dolt-data'', ''already'', ''.dolt''] = StatOk \<and>
   ''already'' \<notin> RigName ` set (FindMigratableDatabases town_fs town_resolve [''T''])"
proof -
  have found: "FindMigratableDatabases town_fs town_resolve [''T''] =
     [\<lparr> RigName = ''nexus'',
        SourcePath = [''T'', ''nexus'', ''mayor'', ''rig'', ''.beads'', ''dolt'', ''beads''],
        TargetPath = [''T'', ''.dolt-data'', ''nexus''] \<rparr>]"
    by (simp add: FindMigratableDatabases_def town_fs_def town_resolve_def Join_def Let_def)
  have there: "stat town_fs (Join (Join (Join [''T''] [''.dolt-data'']) [''already'']) [''.dolt'']) = StatOk"
    by (simp add: town_fs_def Join_def)
  show ?thesis
    using FindMigratableDatabases_target_has_no_dolt [of town_fs town_resolve "[''T'']"]
      found there
    by (simp add: Join_def)
qed

subsection \<open>The metadata reconciler\<close>

lemma distinct_sort_key_fst:
  "distinct (map fst xs) \<Longrightarrow> distinct (map fst (sort_key fst xs))"
  by (induction xs) (auto simp: distinct_insort_key)

lemma map_of_sort_key_fst:
  assumes "distinct (map fst xs)"
  shows "map_of (sort_key fst xs) = map_of xs"
  using assms distinct_sort_key_fst [OF assms]
  by (simp add: map_of_inject_set)

lemma update_fresh:
  "k \<notin> fst ` set al \<Longrightarrow> AList.update k v al = al @ [(k, v)]"
  by (induction al) auto

lemma fold_update_fresh:
  "distinct (map fst (acc @ xs)) \<Longrightarrow>
   fold (\<lambda>(k, v). AList.update k v) xs acc = acc @ xs"
proof (induction xs arbitrary: acc)
  case Nil
  then show ?case by simp
next
  case (Cons x xs)
  obtain k v where x: "x = (k, v)" by (cases x)
  have fresh: "k \<notin> fst ` set acc" using Cons.prems x by auto
  have "distinct (map fst ((acc @ [(k, v)]) @ xs))" using Cons.prems x by simp
  from Cons.IH [OF this] show ?case
    by (simp add: x update_fresh [OF fresh])
qed

lemma fold_update_distinct:
  "distinct (map fst acc) \<Longrightarrow>
   distinct (map fst (fold (\<lambda>(k, v). AList.update k v) xs acc))"
  by (induction xs arbitrary: acc) (auto simp: distinct_update)


lemma distinct_setServerFields:
  "distinct (map fst m) \<Longrightarrow> distinct (map fst (setServerFields rigName m))"
  by (simp add: setServerFields_def Let_def distinct_update)

lemma map_of_setServerFields:
  "map_of (setServerFields rigName m) =
     (\<lambda>k. if k = ''database'' then Some (JString ''dolt'')
          else if k = ''backend'' then Some (JString ''dolt'')
          else if k = ''dolt_mode'' then Some (JString ''server'')
          else if k = ''dolt_database'' then Some (JString rigName)
          else if k = ''jsonl_export'' \<and> map_of m k = None then Some (JString ''issues.jsonl'')
          else map_of m k)"
  by (rule ext) (simp add: setServerFields_def Let_def update_conv')

lemma setServerFields_fixed:
  assumes "map_of m ''database'' = Some (JString ''dolt'')"
    and "map_of m ''backend'' = Some (JString ''dolt'')"
    and "map_of m ''dolt_mode'' = Some (JString ''server'')"
    and "map_of m ''dolt_database'' = Some (JString rigName)"
    and "map_of m ''jsonl_export'' \<noteq> None"
  shows "setServerFields rigName m = m"
  using assms by (auto simp: setServerFields_def Let_def update_triv)

lemma loadExisting_cases:
  "loadExisting None = Some []"
  "loadExisting (Some NotJson) = Some []"
  "loadExisting (Some JsonOther) = Some []"
  "loadExisting (Some JsonNull) = None"
  "loadExisting (Some (JsonObject members)) =
     Some (fold (\<lambda>(k, v). AList.update k v) members [])"
  by (simp_all add: loadExisting_def Unmarshal_def)

lemma loadExisting_distinct:
  "loadExisting content = Some m \<Longrightarrow> distinct (map fst m)"
  by (auto simp: loadExisting_def Unmarshal_def fold_update_distinct
      split: option.splits filedata.splits)

text \<open>The reconciled record is a fixed point of decoding, upserting and encoding.\<close>

lemma reconcile_fixed_point:
  fixes rigName :: string
  assumes "distinct (map fst m)"
  defines "written \<equiv> sort_key fst (setServerFields rigName m)"
  shows "loadExisting (Some (JsonObject written)) = Some written"
    and "setServerFields rigName written = written"
    and "sort_key fst written = written"
proof -
  have d: "distinct (map fst (setServerFields rigName m))"
    using assms(1) by (rule distinct_setServerFields)
  have dw: "distinct (map fst written)"
    unfolding written_def using d by (rule distinct_sort_key_fst)
  have mw: "map_of written = map_of (setServerFields rigName m)"
    unfolding written_def using d by (rule map_of_sort_key_fst)
  show "loadExisting (Some (JsonObject written)) = Some written"
    using fold_update_fresh [of "[]" written] dw by (simp add: loadExisting_cases)
  show "setServerFields rigName written = written"
    by (rule setServerFields_fixed) (simp_all add: mw map_of_setServerFields)
  show "sort_key fst written = written"
    unfolding written_def by (rule sort_key_id_if_sorted) (rule sorted_sort_key)
qed

lemma FindRigBeadsDir_nonempty: "FindRigBeadsDir fs townRoot rigName \<noteq> []"
  by (simp add: FindRigBeadsDir_def Join_def Let_def)

lemma EnsureMetadata_eq:
  "EnsureMetadata fs townRoot rigName =
     (let d = FindRigBeadsDir fs townRoot rigName; p = Join d [''metadata.json'']
      in if \<not> mkdirAllowed fs d
         then (fs, Return (Some (Wrap ''creating beads directory'' MkdirFailed)))
         else
           (case loadExisting (readFile fs p) of
              None \<Rightarrow> (fst (MkdirAll fs d), Panic ''assignment to entry in nil map'')
            | Some m \<Rightarrow>
                if writeAllowed fs p
                then (fst (AtomicWriteFile (fst (MkdirAll fs d)) p
                             (MarshalIndent (setServerFields rigName m))), Return None)
                else (fst (MkdirAll fs d),
                      Return (Some (Wrap ''writing metadata.json'' WriteFailed)))))"
  by (simp add: EnsureMetadata_def FindRigBeadsDir_nonempty Let_def MkdirAll_def
      AtomicWriteFile_def loadExisting_def setServerFields_def split: option.splits)

lemma stat_MkdirAll:
  "stat (fst (MkdirAll fs d)) q =
     (if mkdirAllowed fs d \<and> prefix q d \<and> q \<noteq> [] then StatOk else stat fs q)"
  by (simp add: MkdirAll_def)

lemma stat_AtomicWriteFile:
  "stat (fst (AtomicWriteFile fs p data)) q =
     (if writeAllowed fs p \<and> q = p then StatOk else stat fs q)"
  by (simp add: AtomicWriteFile_def)

lemma beads_paths:
  "\<not> prefix (Join t [r, ''mayor'', ''rig'', ''.beads'']) (Join t [r, ''.beads''])"
  "Join t [r, ''mayor'', ''rig'', ''.beads''] \<noteq> Join (Join t [r, ''.beads'']) [''metadata.json'']"
  "Join t [r, ''mayor'', ''rig'', ''.beads''] \<noteq>
     Join (Join t [r, ''mayor'', ''rig'', ''.beads'']) [''metadata.json'']"
  "Join t [r, ''.beads''] \<noteq> Join (Join t [r, ''.beads'']) [''metadata.json'']"
  "Join t [r, ''mayor'', ''rig'', ''.beads''] \<noteq> []"
  by (simp_all add: Join_def)

text \<open>
  Making the directory and writing the metadata file do not change which directory
  \<open>FindRigBeadsDir\<close> selects.
\<close>

lemma FindRigBeadsDir_stable:
  assumes d: "d = FindRigBeadsDir fs townRoot rigName"
    and stat': "\<And>q. stat fs' q =
       (if (mk \<and> prefix q d \<and> q \<noteq> []) \<or> (wr \<and> q = Join d [''metadata.json''])
        then StatOk else stat fs q)"
    and mk: "wr \<longrightarrow> mk"
  shows "FindRigBeadsDir fs' townRoot rigName = d"
proof (cases "rigName = ''hq''")
  case True
  then show ?thesis by (simp add: d FindRigBeadsDir_def)
next
  case False
  let ?M = "Join townRoot [rigName, ''mayor'', ''rig'', ''.beads'']"
  let ?R = "Join townRoot [rigName, ''.beads'']"
  consider (mayor) "stat fs ?M = StatOk"
    | (rig) "stat fs ?M \<noteq> StatOk" "stat fs ?R = StatOk"
    | (neither) "stat fs ?M \<noteq> StatOk" "stat fs ?R \<noteq> StatOk"
    by blast
  then show ?thesis
  proof cases
    case mayor
    then have dM: "d = ?M" by (simp add: d FindRigBeadsDir_def False Let_def)
    have "stat fs' ?M = StatOk" by (simp add: stat' mayor)
    then show ?thesis by (simp add: dM FindRigBeadsDir_def False Let_def)
  next
    case rig
    then have dR: "d = ?R" by (simp add: d FindRigBeadsDir_def False Let_def)
    have "stat fs' ?M = stat fs ?M" "stat fs' ?R = StatOk"
      by (simp_all add: stat' dR beads_paths rig)
    then show ?thesis using rig by (simp add: dR FindRigBeadsDir_def False Let_def)
  next
    case neither
    then have dM: "d = ?M" by (simp add: d FindRigBeadsDir_def False Let_def)
    have "stat fs' ?M = StatOk \<or> (stat fs' ?M = stat fs ?M \<and> stat fs' ?R = stat fs ?R)"
    proof (cases mk)
      case True
      then show ?thesis by (simp add: stat' dM beads_paths)
    next
      case no: False
      then have "\<not> wr" using mk by blast
      then show ?thesis using no by (simp add: stat')
    qed
    then show ?thesis using neither by (auto simp: dM FindRigBeadsDir_def False Let_def)
  qed
qed

lemma MkdirAll_twice:
  "mkdirAllowed fs d \<Longrightarrow> MkdirAll (fst (MkdirAll fs d)) d = (fst (MkdirAll fs d), None)"
  by (auto simp: MkdirAll_def fun_eq_iff)

lemma MkdirAll_after_write:
  assumes "mkdirAllowed fs d" "writeAllowed fs p"
  shows "fst (MkdirAll (fst (AtomicWriteFile (fst (MkdirAll fs d)) p data)) d) =
         fst (AtomicWriteFile (fst (MkdirAll fs d)) p data)"
  using assms by (auto simp: MkdirAll_def AtomicWriteFile_def fun_eq_iff)

lemma AtomicWriteFile_twice:
  assumes "writeAllowed fs p"
  shows "fst (AtomicWriteFile (fst (AtomicWriteFile fs p data)) p data) =
         fst (AtomicWriteFile fs p data)"
  using assms by (simp add: AtomicWriteFile_def)

lemma hq_fs_simps:
  "mkdirAllowed (hq_fs content) p" "writeAllowed (hq_fs content) p"
  "readFile (hq_fs content) [''T'', ''.beads'', ''metadata.json''] = content"
  by (simp_all add: hq_fs_def)

lemma hq_run:
  "EnsureMetadata (hq_fs content) [''T''] ''hq'' =
     (case loadExisting content of
        None \<Rightarrow> (fst (MkdirAll (hq_fs content) [''T'', ''.beads'']),
                 Panic ''assignment to entry in nil map'')
      | Some m \<Rightarrow>
          (fst (AtomicWriteFile (fst (MkdirAll (hq_fs content) [''T'', ''.beads'']))
                  [''T'', ''.beads'', ''metadata.json'']
                  (MarshalIndent (setServerFields ''hq'' m))), Return None))"
  by (simp add: EnsureMetadata_eq FindRigBeadsDir_def Join_def Let_def hq_fs_simps
      split: option.splits)

lemma fresh_record:
  "MarshalIndent (setServerFields rigName []) =
   JsonObject
     [(''backend'', JString ''dolt''), (''database'', JString ''dolt''),
      (''dolt_database'', JString rigName), (''dolt_mode'', JString ''server''),
      (''jsonl_export'', JString ''issues.jsonl'')]"
  by (simp add: MarshalIndent_def setServerFields_def less_eq_char_def less_char_def)


lemma MkdirAll_fields [simp]:
  "readFile (fst (MkdirAll fs d)) = readFile fs"
  "mkdirAllowed (fst (MkdirAll fs d)) = mkdirAllowed fs"
  "writeAllowed (fst (MkdirAll fs d)) = writeAllowed fs"
  by (simp_all add: MkdirAll_def)

lemma AtomicWriteFile_fields [simp]:
  "mkdirAllowed (fst (AtomicWriteFile fs p data)) = mkdirAllowed fs"
  "writeAllowed (fst (AtomicWriteFile fs p data)) = writeAllowed fs"
  "writeAllowed fs p \<Longrightarrow> readFile (fst (AtomicWriteFile fs p data)) p = Some data"
  by (simp_all add: AtomicWriteFile_def)

lemma MarshalIndent_fixed_point:
  fixes rigName :: string
  assumes "loadExisting content = Some m"
  defines "data \<equiv> MarshalIndent (setServerFields rigName m)"
  shows "\<exists>w. loadExisting (Some data) = Some w \<and> MarshalIndent (setServerFields rigName w) = data"
proof -
  have d: "distinct (map fst m)" using assms(1) by (rule loadExisting_distinct)
  show ?thesis
    using reconcile_fixed_point [OF d, of rigName]
    by (simp add: data_def MarshalIndent_def)
qed

text \<open>
  C6. The metadata reconciler is idempotent: running \<open>EnsureMetadata\<close> a second time
  with the same arguments gives the same outcome and leaves the file system, and with it
  the contents of the metadata file, exactly as the first run left it. The encoder writes
  the names in sorted order, so equal records are equal files.
\<close>

theorem EnsureMetadata_idempotent:
  "EnsureMetadata (fst (EnsureMetadata fs townRoot rigName)) townRoot rigName =
   EnsureMetadata fs townRoot rigName"
proof -
  define d where "d = FindRigBeadsDir fs townRoot rigName"
  define p where "p = Join d [''metadata.json'']"
  define mk where "mk = fst (MkdirAll fs d)"
  show ?thesis
  proof (cases "mkdirAllowed fs d")
    case False
    then show ?thesis by (simp add: EnsureMetadata_eq [of fs] d_def Let_def)
  next
    case allowed: True
    have d_mk: "FindRigBeadsDir mk townRoot rigName = d"
      by (rule FindRigBeadsDir_stable [where mk = True and wr = False and fs = fs])
         (simp_all add: d_def mk_def stat_MkdirAll allowed [unfolded d_def])
    have mk_twice: "fst (MkdirAll mk d) = mk"
      using MkdirAll_twice [OF allowed] by (simp add: mk_def)
    have mk_fields: "mkdirAllowed mk = mkdirAllowed fs" "readFile mk = readFile fs"
        "writeAllowed mk = writeAllowed fs"
      by (simp_all add: mk_def)
    show ?thesis
    proof (cases "loadExisting (readFile fs p)")
      case None
      then have first: "EnsureMetadata fs townRoot rigName =
          (mk, Panic ''assignment to entry in nil map'')"
        using allowed by (simp add: EnsureMetadata_eq [of fs] d_def [symmetric] p_def [symmetric]
            mk_def Let_def)
      have "EnsureMetadata mk townRoot rigName = (mk, Panic ''assignment to entry in nil map'')"
        using allowed None
        by (simp add: EnsureMetadata_eq [of mk] d_mk p_def [symmetric] mk_twice mk_fields Let_def)
      then show ?thesis by (simp add: first)
    next
      case (Some m)
      show ?thesis
      proof (cases "writeAllowed fs p")
        case False
        then have first: "EnsureMetadata fs townRoot rigName =
            (mk, Return (Some (Wrap ''writing metadata.json'' WriteFailed)))"
          using allowed Some
          by (simp add: EnsureMetadata_eq [of fs] d_def [symmetric] p_def [symmetric] mk_def Let_def)
        have "EnsureMetadata mk townRoot rigName =
            (mk, Return (Some (Wrap ''writing metadata.json'' WriteFailed)))"
          using allowed Some False
          by (simp add: EnsureMetadata_eq [of mk] d_mk p_def [symmetric] mk_twice mk_fields Let_def)
        then show ?thesis by (simp add: first)
      next
        case writable: True
        define data where "data = MarshalIndent (setServerFields rigName m)"
        define wr where "wr = fst (AtomicWriteFile mk p data)"
        have first: "EnsureMetadata fs townRoot rigName = (wr, Return None)"
          using allowed Some writable
          by (simp add: EnsureMetadata_eq [of fs] d_def [symmetric] p_def [symmetric]
              mk_def wr_def data_def Let_def)
        have d_wr: "FindRigBeadsDir wr townRoot rigName = d"
          by (rule FindRigBeadsDir_stable [where mk = True and wr = True and fs = fs])
             (auto simp: d_def wr_def mk_def p_def stat_MkdirAll stat_AtomicWriteFile
                allowed [unfolded d_def] writable [unfolded p_def d_def])
        have allowed_wr: "mkdirAllowed wr d" "writeAllowed wr p"
          using allowed writable by (simp_all add: wr_def mk_def)
        have read_wr: "readFile wr p = Some data"
          using writable by (simp add: wr_def mk_def)
        obtain w where w: "loadExisting (Some data) = Some w"
            "MarshalIndent (setServerFields rigName w) = data"
          using MarshalIndent_fixed_point [OF Some, of rigName] unfolding data_def by blast
        have mk_wr: "fst (MkdirAll wr d) = wr"
          using MkdirAll_after_write [OF allowed, of p data] writable
          by (simp add: wr_def mk_def)
        have wr_wr: "fst (AtomicWriteFile wr p data) = wr"
          using AtomicWriteFile_twice [of mk p data] writable by (simp add: wr_def mk_def)
        have "EnsureMetadata wr townRoot rigName = (wr, Return None)"
          using allowed_wr
          by (simp add: EnsureMetadata_eq [of wr] d_wr p_def [symmetric] read_wr w mk_wr wr_wr
              Let_def)
        then show ?thesis by (simp add: first)
      qed
    qed
  qed
qed

theorem EnsureMetadata_idempotent_witness:
  "EnsureMetadata (fst (EnsureMetadata (hq_fs None) [''T''] ''hq'')) [''T''] ''hq'' =
   EnsureMetadata (hq_fs None) [''T''] ''hq'' \<and>
   snd (EnsureMetadata (hq_fs None) [''T''] ''hq'') = Return None \<and>
   readFile (fst (EnsureMetadata (hq_fs None) [''T''] ''hq''))
     [''T'', ''.beads'', ''metadata.json''] =
   Some (JsonObject
     [(''backend'', JString ''dolt''), (''database'', JString ''dolt''),
      (''dolt_database'', JString ''hq''), (''dolt_mode'', JString ''server''),
      (''jsonl_export'', JString ''issues.jsonl'')])"
proof -
  have run: "EnsureMetadata (hq_fs None) [''T''] ''hq'' =
      (fst (AtomicWriteFile (fst (MkdirAll (hq_fs None) [''T'', ''.beads'']))
                  [''T'', ''.beads'', ''metadata.json'']
                  (MarshalIndent (setServerFields ''hq'' []))), Return None)"
    by (simp add: hq_run loadExisting_cases)
  have "readFile (fst (EnsureMetadata (hq_fs None) [''T''] ''hq''))
     [''T'', ''.beads'', ''metadata.json''] = Some (MarshalIndent (setServerFields ''hq'' []))"
    unfolding run by (simp add: hq_fs_simps)
  then show ?thesis
    using EnsureMetadata_idempotent [of "hq_fs None" "[''T'']" "''hq''"] run
    by (simp add: fresh_record)
qed





lemma FindRigBeadsDir_readFile_update:
  "FindRigBeadsDir (fs\<lparr> readFile := rf \<rparr>) townRoot rigName = FindRigBeadsDir fs townRoot rigName"
  by (simp add: FindRigBeadsDir_def Let_def)

lemma corrupt_as_absent:
  assumes "readFile fs (Join (FindRigBeadsDir fs townRoot rigName) [''metadata.json'']) = Some NotJson"
  shows "snd (EnsureMetadata fs townRoot rigName) =
         snd (EnsureMetadata
                (fs\<lparr> readFile := (readFile fs)
                       (Join (FindRigBeadsDir fs townRoot rigName) [''metadata.json''] := None) \<rparr>)
                townRoot rigName)"
  using assms
  by (simp add: EnsureMetadata_eq Let_def loadExisting_cases FindRigBeadsDir_readFile_update)

text \<open>
  C9. When the metadata file holds text that is not JSON, \<open>EnsureMetadata\<close> behaves as if
  the file were not there: the outcome is the one it has without the file, and whenever
  the directory can be made and the file written it returns no error and the record
  written has exactly the names \<open>backend\<close>, \<open>database\<close>, \<open>dolt_database\<close>, \<open>dolt_mode\<close> and
  \<open>jsonl_export\<close> with their default values. Nothing of a corrupt file is preserved.
\<close>

theorem EnsureMetadata_discards_corrupt:
  assumes corrupt:
      "readFile fs (Join (FindRigBeadsDir fs townRoot rigName) [''metadata.json'']) = Some NotJson"
  shows "snd (EnsureMetadata fs townRoot rigName) =
         snd (EnsureMetadata
                (fs\<lparr> readFile := (readFile fs)
                       (Join (FindRigBeadsDir fs townRoot rigName) [''metadata.json''] := None) \<rparr>)
                townRoot rigName) \<and>
         (mkdirAllowed fs (FindRigBeadsDir fs townRoot rigName) \<and>
          writeAllowed fs (Join (FindRigBeadsDir fs townRoot rigName) [''metadata.json'']) \<longrightarrow>
            snd (EnsureMetadata fs townRoot rigName) = Return None \<and>
            readFile (fst (EnsureMetadata fs townRoot rigName))
              (Join (FindRigBeadsDir fs townRoot rigName) [''metadata.json'']) =
            Some (JsonObject
              [(''backend'', JString ''dolt''), (''database'', JString ''dolt''),
               (''dolt_database'', JString rigName), (''dolt_mode'', JString ''server''),
               (''jsonl_export'', JString ''issues.jsonl'')]))"
proof -
  have "snd (EnsureMetadata fs townRoot rigName) = Return None \<and>
        readFile (fst (EnsureMetadata fs townRoot rigName))
          (Join (FindRigBeadsDir fs townRoot rigName) [''metadata.json'']) =
        Some (JsonObject
          [(''backend'', JString ''dolt''), (''database'', JString ''dolt''),
           (''dolt_database'', JString rigName), (''dolt_mode'', JString ''server''),
           (''jsonl_export'', JString ''issues.jsonl'')])"
    if "mkdirAllowed fs (FindRigBeadsDir fs townRoot rigName)"
      "writeAllowed fs (Join (FindRigBeadsDir fs townRoot rigName) [''metadata.json''])"
    using that
    by (simp add: EnsureMetadata_eq [of fs] Let_def corrupt loadExisting_cases fresh_record)
  then show ?thesis
    using corrupt_as_absent [OF corrupt] by blast
qed

theorem EnsureMetadata_discards_corrupt_witness:
  "snd (EnsureMetadata (hq_fs (Some NotJson)) [''T''] ''hq'') = Return None \<and>
   readFile (fst (EnsureMetadata (hq_fs (Some NotJson)) [''T''] ''hq''))
     [''T'', ''.beads'', ''metadata.json''] =
   Some (JsonObject
     [(''backend'', JString ''dolt''), (''database'', JString ''dolt''),
      (''dolt_database'', JString ''hq''), (''dolt_mode'', JString ''server''),
      (''jsonl_export'', JString ''issues.jsonl'')])"
proof -
  define fs where "fs = hq_fs (Some NotJson)"
  have path: "Join (FindRigBeadsDir fs [''T''] ''hq'') [''metadata.json''] =
      [''T'', ''.beads'', ''metadata.json'']"
    by (simp add: FindRigBeadsDir_def Join_def)
  have corrupt: "readFile fs (Join (FindRigBeadsDir fs [''T''] ''hq'') [''metadata.json'']) =
      Some NotJson"
    unfolding path by (simp add: fs_def hq_fs_simps)
  have mk: "mkdirAllowed fs (FindRigBeadsDir fs [''T''] ''hq'')"
    and wr: "writeAllowed fs (Join (FindRigBeadsDir fs [''T''] ''hq'') [''metadata.json''])"
    by (simp_all add: fs_def hq_fs_simps)
  have "snd (EnsureMetadata fs [''T''] ''hq'') = Return None \<and>
        readFile (fst (EnsureMetadata fs [''T''] ''hq''))
          (Join (FindRigBeadsDir fs [''T''] ''hq'') [''metadata.json'']) =
        Some (JsonObject
          [(''backend'', JString ''dolt''), (''database'', JString ''dolt''),
           (''dolt_database'', JString ''hq''), (''dolt_mode'', JString ''server''),
           (''jsonl_export'', JString ''issues.jsonl'')])"
    using EnsureMetadata_discards_corrupt [OF corrupt] mk wr by blast
  then show ?thesis
    unfolding path unfolding fs_def .
qed

subsection \<open>Cost tiers\<close>

lemma roleAgentsMatch_tier:
  "roleAgentsMatch (CostTierRoleAgents t) (CostTierRoleAgents t)"
  by (simp add: roleAgentsMatch_def CostTierRoleAgents_def mapEntries_def)

lemma apply_valid:
  assumes "IsValidTier t"
  shows "snd (ApplyCostTier s t) = None"
    and "RoleAgents (fst (ApplyCostTier s t)) = CostTierRoleAgents t"
    and "CostTier (fst (ApplyCostTier s t)) = t"
  using assms
  by (auto simp: ApplyCostTier_def Let_def IsValidTier_def CostTierRoleAgents_def
      TierStandard_def TierEconomy_def TierBudget_def)

text \<open>
  C10. For each of the tiers \<open>standard\<close>, \<open>economy\<close> and \<open>budget\<close> and any settings,
  \<open>ApplyCostTier\<close> returns no error and \<open>GetCurrentTier\<close> of the updated settings is
  that tier, never the empty string; for any other tier name \<open>ApplyCostTier\<close> returns an
  error and leaves the settings, the role agents among them, as they were.
\<close>

theorem ApplyCostTier_GetCurrentTier_roundtrip:
  "(t \<in> {''standard'', ''economy'', ''budget''} \<longrightarrow>
      snd (ApplyCostTier s t) = None \<and> GetCurrentTier (fst (ApplyCostTier s t)) = t \<and> t \<noteq> []) \<and>
   (t \<notin> {''standard'', ''economy'', ''budget''} \<longrightarrow>
      snd (ApplyCostTier s t) \<noteq> None \<and> fst (ApplyCostTier s t) = s)"
proof -
  have valid: "IsValidTier t \<longleftrightarrow> t \<in> {''standard'', ''economy'', ''budget''}"
    by (auto simp: IsValidTier_def TierStandard_def TierEconomy_def TierBudget_def)
  have ne: "t \<noteq> []" if "IsValidTier t"
    using that by (auto simp: IsValidTier_def TierStandard_def TierEconomy_def TierBudget_def)
  have get: "GetCurrentTier (fst (ApplyCostTier s t)) = t" if "IsValidTier t"
    using that ne [OF that] apply_valid [OF that, of s] roleAgentsMatch_tier [of t]
    by (simp add: GetCurrentTier_def)
  have invalid: "snd (ApplyCostTier s t) \<noteq> None \<and> fst (ApplyCostTier s t) = s" if "\<not> IsValidTier t"
    using that
    by (simp add: ApplyCostTier_def Let_def IsValidTier_def CostTierRoleAgents_def)
  show ?thesis
    unfolding valid [symmetric]
    using ne get invalid apply_valid(1) [of t s] by blast
qed

theorem ApplyCostTier_GetCurrentTier_roundtrip_witness:
  "snd (ApplyCostTier custom_settings ''economy'') = None \<and>
   GetCurrentTier (fst (ApplyCostTier custom_settings ''economy'')) = ''economy'' \<and>
   GetCurrentTier custom_settings = [] \<and>
   snd (ApplyCostTier custom_settings ''premium'') \<noteq> None \<and>
   fst (ApplyCostTier custom_settings ''premium'') = custom_settings"
proof -
  have custom: "GetCurrentTier custom_settings = []"
    by (simp add: GetCurrentTier_def custom_settings_def ValidCostTiers_def
        roleAgentsMatch_def mapEntries_def CostTierRoleAgents_def
        TierStandard_def TierEconomy_def TierBudget_def)
  show ?thesis
    using ApplyCostTier_GetCurrentTier_roundtrip [of "''economy''" custom_settings]
      ApplyCostTier_GetCurrentTier_roundtrip [of "''premium''" custom_settings] custom
    by simp
qed

subsection \<open>Step-drift detection\<close>







subsection \<open>Version check of the issue-store tool\<close>




lemma Split_nonempty: "Split s sep \<noteq> []"
  by (induction s) (auto simp: Let_def)

















subsection \<open>Polecat health check\<close>

text \<open>
  C3. For a polecat whose \<open>agent_state\<close> column is \<open>spawning\<close>: when \<open>updated_at\<close> is at most
  five minutes before now, the health check logs the spawning skip, does not log
  \<open>CRASH DETECTED\<close> and triggers no restart, whether the multiplexer session exists or not;
  when \<open>updated_at\<close> is more than five minutes before now, it logs that the spawning guard
  expired and goes on to the crash check, which logs \<open>CRASH DETECTED\<close> exactly when the
  session is absent.
\<close>

theorem checkPolecatHealth_spawning_guard:
  assumes "agent_state issue = ''spawning''"
  shows "(now - updated_at issue \<le> 5 * 60 \<longrightarrow>
            SpawningSkipped \<in> set (logged (checkPolecatHealth now hasSession restartAllowed issue)) \<and>
            CrashDetected \<notin> set (logged (checkPolecatHealth now hasSession restartAllowed issue)) \<and>
            \<not> restarted (checkPolecatHealth now hasSession restartAllowed issue)) \<and>
         (now - updated_at issue > 5 * 60 \<longrightarrow>
            SpawningGuardExpired \<in> set (logged (checkPolecatHealth now hasSession restartAllowed issue)) \<and>
            (CrashDetected \<in> set (logged (checkPolecatHealth now hasSession restartAllowed issue))
               \<longleftrightarrow> \<not> hasSession) \<and>
            (restarted (checkPolecatHealth now hasSession restartAllowed issue)
               \<longleftrightarrow> \<not> hasSession \<and> restartAllowed))"
  using assms by (simp add: checkPolecatHealth_def crashCheck_def spawningGrace_def)

theorem checkPolecatHealth_spawning_guard_witness:
  "logged (checkPolecatHealth 1000 False True (spawning_bead 1000)) = [SpawningSkipped] \<and>
   \<not> restarted (checkPolecatHealth 1000 False True (spawning_bead 1000)) \<and>
   logged (checkPolecatHealth 1000 False True (spawning_bead 400)) =
     [SpawningGuardExpired, CrashDetected] \<and>
   restarted (checkPolecatHealth 1000 False True (spawning_bead 400))"
proof -
  have s: "agent_state (spawning_bead t) = ''spawning''" "updated_at (spawning_bead t) = t" for t
    by (simp_all add: spawning_bead_def)
  have l: "logged (checkPolecatHealth 1000 False True (spawning_bead 1000)) = [SpawningSkipped]"
      "logged (checkPolecatHealth 1000 False True (spawning_bead 400)) =
         [SpawningGuardExpired, CrashDetected]"
    by (simp_all add: checkPolecatHealth_def crashCheck_def spawningGrace_def s)
  show ?thesis
    using checkPolecatHealth_spawning_guard [OF s(1), of 1000 1000 False True]
      checkPolecatHealth_spawning_guard [OF s(1), of 1000 400 False True] l
    by (simp add: s)
qed

end
